theory Spec2Isabelle
  imports Complex_Main
begin

section \<open>The views of mozilla_django_oidc: data model\<close>

text \<open>
  The module \<^verbatim>\<open>mozilla_django_oidc/views.py\<close> holds three Django views and the
  helper \<^verbatim>\<open>get_next_url\<close>. The views read and write the per-request object of
  the framework (query parameters, session, current user) and call into
  \<^verbatim>\<open>django.contrib.auth\<close>. The request is a record that is passed in and
  returned updated; an exception is a value of the sum type; the collaborators of the
  framework are the fields of the record \<open>env\<close>.
\<close>

text \<open>
  The Python values kept in the session: \<^verbatim>\<open>None\<close>, strings and numbers.
  \<open>truthy\<close> is Python's truth value, as tested by \<^verbatim>\<open>if x:\<close> and
  \<^verbatim>\<open>x or y\<close>. The float returned by \<^verbatim>\<open>time.time()\<close> is idealised
  as a real number.
\<close>

datatype pyval = PNone | PStr string | PNum real

fun truthy :: "pyval \<Rightarrow> bool" where
  "truthy PNone = False"
| "truthy (PStr s) = (s \<noteq> [])"
| "truthy (PNum x) = (x \<noteq> 0)"

text \<open>The user model: only the attribute the views read.\<close>

record principal =
  username :: string
  is_active :: bool

text \<open>
  \<^verbatim>\<open>request.user\<close> is either Django's \<^verbatim>\<open>AnonymousUser\<close> or a user of
  the user model; \<^verbatim>\<open>is_authenticated\<close> tells them apart.
\<close>

datatype req_user = AnonymousUser | User principal

fun is_authenticated :: "req_user \<Rightarrow> bool" where
  "is_authenticated AnonymousUser = False"
| "is_authenticated (User u) = True"

datatype verb = HttpGet | HttpPost | HttpPut | HttpPatch | HttpDelete | HttpHead | HttpOptions

text \<open>
  The exceptions: those the views raise themselves (\<^verbatim>\<open>SuspiciousOperation\<close>
  with its message, \<^verbatim>\<open>AssertionError\<close>), those of the framework
  (\<^verbatim>\<open>DisallowedHost\<close> of \<^verbatim>\<open>request.get_host()\<close>,
  \<^verbatim>\<open>DisallowedRedirect\<close> of \<^verbatim>\<open>HttpResponseRedirect\<close>,
  \<^verbatim>\<open>ImportError\<close> of \<^verbatim>\<open>import_string\<close>), and any other one that a
  collaborator raises.
\<close>

datatype exn =
  SuspiciousOperation string
| AssertionError
| ImportError
| BackendError string
| DisallowedHost
| DisallowedRedirect

text \<open>
  The request: its verb, the query parameters \<^verbatim>\<open>request.GET\<close> (for a key that
  is repeated, the value that \<^verbatim>\<open>get\<close> and \<^verbatim>\<open>[]\<close> return), the session
  dictionary, the current user, and the results of \<^verbatim>\<open>request.is_secure()\<close>
  and \<^verbatim>\<open>request.get_host()\<close>. The latter returns the host of the request, or
  raises \<^verbatim>\<open>DisallowedHost\<close> for a Host header that the framework refuses.
\<close>

record request =
  verb :: verb
  GET :: "string \<rightharpoonup> string"
  session :: "string \<rightharpoonup> pyval"
  user :: req_user
  is_secure :: bool
  get_host :: "exn + string"

datatype response = HttpResponseRedirect pyval | HttpResponseNotAllowed "verb list"

text \<open>
  The effects of a handler, in the order in which it performs them: the writes to the
  session and the calls into \<^verbatim>\<open>django.contrib.auth\<close>.
\<close>

datatype event =
  SessionDel string
| SessionSet string pyval
| AuthLogout
| AuthAuthenticate pyval
| AuthLogin principal
| LogoutUrlMethod string

text \<open>
  What a handler leaves behind: the response or the exception it raised, the request
  as it is afterwards, and the effects performed.
\<close>

type_synonym outcome = "(exn + response) \<times> request \<times> event list"

text \<open>
  Python lists are objects that \<^verbatim>\<open>append\<close> changes in place, and two names can
  hold the same list. The heap is the sequence of the list objects allocated so far;
  the address of a list is its position. \<open>new_list\<close> allocates (a list display
  \<^verbatim>\<open>[...]\<close>, or the copy that \<^verbatim>\<open>list(...)\<close> makes), \<open>list_at\<close> reads
  the elements, \<open>list_append\<close> is \<^verbatim>\<open>xs.append(x)\<close>. A Python name always
  holds an allocated object; for an address beyond the heap \<open>list_at\<close> gives no
  elements and \<open>list_append\<close> changes nothing.
\<close>

type_synonym heap = "string list list"

definition list_at :: "heap \<Rightarrow> nat \<Rightarrow> string list" where
  "list_at h a = (if a < length h then h ! a else [])"

definition new_list :: "heap \<Rightarrow> string list \<Rightarrow> nat \<times> heap" where
  "new_list h xs = (length h, h @ [xs])"

definition list_append :: "heap \<Rightarrow> nat \<Rightarrow> string \<Rightarrow> heap" where
  "list_append h a x = h[a := list_at h a @ [x]]"

text \<open>
  The Django settings the views read; \<open>None\<close> is a setting that is not configured.
  \<^verbatim>\<open>OIDC_REDIRECT_ALLOWED_HOSTS\<close> holds a list: the setting is the address of
  that list in the heap.
\<close>

record settings =
  LOGIN_REDIRECT_URL_FAILURE :: "string option"
  LOGIN_REDIRECT_URL :: "string option"
  OIDC_RENEW_ID_TOKEN_EXPIRY_SECONDS :: "real option"
  OIDC_REDIRECT_REQUIRE_HTTPS :: "bool option"
  OIDC_REDIRECT_ALLOWED_HOSTS :: "nat option"
  LOGOUT_REDIRECT_URL :: "string option"
  OIDC_OP_LOGOUT_URL_METHOD :: "string option"

text \<open>
  The collaborators outside the repository, as parameters:
  \<^item> \<open>auth_authenticate\<close> is \<^verbatim>\<open>auth.authenticate(request=..., nonce=...)\<close>: it
    returns a user or \<^verbatim>\<open>None\<close>, or raises, and may write to the session;
  \<^item> \<open>auth_login\<close> and \<open>auth_logout\<close> are \<^verbatim>\<open>auth.login\<close> and
    \<^verbatim>\<open>auth.logout\<close>;
  \<^item> \<open>time_time\<close> is the value of \<^verbatim>\<open>time.time()\<close>;
  \<^item> \<open>is_safe_url\<close> is \<^verbatim>\<open>django.utils.http.is_safe_url(url, require_https,
    allowed_hosts)\<close>, given the elements of the list of hosts: it answers, or raises;
  \<^item> \<open>import_string\<close> resolves a dotted path to the function that builds the
    logout URL of the OP (\<open>None\<close>: the path cannot be imported);
  \<^item> \<open>allowed_redirect\<close> is the check that the constructor of
    \<^verbatim>\<open>HttpResponseRedirect\<close> makes of its target: a target whose scheme is
    not among \<^verbatim>\<open>allowed_schemes\<close> is refused with
    \<^verbatim>\<open>DisallowedRedirect\<close>.
\<close>

record env =
  settings :: settings
  auth_authenticate :: "request \<Rightarrow> pyval \<Rightarrow> (exn + principal option) \<times> request"
  auth_login :: "request \<Rightarrow> principal \<Rightarrow> request"
  auth_logout :: "request \<Rightarrow> request"
  time_time :: real
  is_safe_url :: "string \<Rightarrow> bool \<Rightarrow> string list \<Rightarrow> exn + bool"
  import_string :: "string \<Rightarrow> (request \<Rightarrow> exn + pyval) option"
  allowed_redirect :: "pyval \<Rightarrow> bool"

section \<open>Helpers of Python and of the repository\<close>

text \<open>\<^verbatim>\<open>d.get(k)\<close> on the session: the value, or \<^verbatim>\<open>None\<close>.\<close>

definition session_get :: "(string \<rightharpoonup> pyval) \<Rightarrow> string \<Rightarrow> pyval" where
  "session_get d k = (case d k of None \<Rightarrow> PNone | Some v \<Rightarrow> v)"

text \<open>\<^verbatim>\<open>request.GET.get(k)\<close>: the string, or \<^verbatim>\<open>None\<close>.\<close>

definition query_get :: "(string \<rightharpoonup> string) \<Rightarrow> string \<Rightarrow> pyval" where
  "query_get q k = (case q k of None \<Rightarrow> PNone | Some s \<Rightarrow> PStr s)"

text \<open>\<^verbatim>\<open>k in d\<close>.\<close>

definition has_key :: "('k \<rightharpoonup> 'v) \<Rightarrow> 'k \<Rightarrow> bool" where
  "has_key d k = (d k \<noteq> None)"

text \<open>
  Modelled from the spec: \<^verbatim>\<open>mozilla_django_oidc.utils.import_from_settings\<close> is
  imported by the views and is not part of the source at hand. The spec resolves a
  setting from the static configuration and otherwise uses the documented default;
  every call of the views modelled here passes a default.
\<close>

definition import_from_settings :: "'a option \<Rightarrow> 'a \<Rightarrow> 'a" where
  "import_from_settings configured dflt = (case configured of None \<Rightarrow> dflt | Some v \<Rightarrow> v)"

section \<open>OIDCAuthenticationCallbackView\<close>

text \<open>\<^verbatim>\<open>get_settings\<close> of the callback and logout views: a plain alias.\<close>

definition get_settings :: "'a option \<Rightarrow> 'a \<Rightarrow> 'a" where
  "get_settings configured dflt = import_from_settings configured dflt"

definition failure_url :: "env \<Rightarrow> pyval" where
  "failure_url e = PStr (get_settings (LOGIN_REDIRECT_URL_FAILURE (settings e)) ''/'')"

text \<open>
  \<^verbatim>\<open>next_url or self.get_settings('LOGIN_REDIRECT_URL', '/')\<close>: the stored value
  when it is truthy, the setting otherwise.
\<close>

definition success_url :: "env \<Rightarrow> request \<Rightarrow> pyval" where
  "success_url e r =
     (let next_url = session_get (session r) ''oidc_login_next''
      in if truthy next_url then next_url
         else PStr (get_settings (LOGIN_REDIRECT_URL (settings e)) ''/''))"

definition login_failure :: "env \<Rightarrow> response" where
  "login_failure e = HttpResponseRedirect (failure_url e)"

definition login_success :: "env \<Rightarrow> request \<Rightarrow> principal \<Rightarrow> response \<times> request \<times> event list" where
  "login_success e r u =
     (let r1 = auth_login e r u;
          expiration_interval =
            get_settings (OIDC_RENEW_ID_TOKEN_EXPIRY_SECONDS (settings e)) (60 * 15);
          expiration = PNum (time_time e + expiration_interval);
          r2 = r1\<lparr>session := (session r1)(''oidc_id_token_expiration'' \<mapsto> expiration)\<rparr>
      in (HttpResponseRedirect (success_url e r2), r2,
          [AuthLogin u, SessionSet ''oidc_id_token_expiration'' expiration]))"

text \<open>
  Lines 66 to 69 of \<^verbatim>\<open>get\<close>: read the nonce, and delete it from the session when
  it is truthy. The result is the nonce read, the request and the effects so far.
\<close>

definition consume_nonce :: "request \<Rightarrow> pyval \<times> request \<times> event list" where
  "consume_nonce r =
     (let nonce = session_get (session r) ''oidc_nonce''
      in if truthy nonce
         then (nonce, r\<lparr>session := (session r)(''oidc_nonce'' := None)\<rparr>,
               [SessionDel ''oidc_nonce''])
         else (nonce, r, []))"

text \<open>
  The body of \<^verbatim>\<open>if request.GET.get('error'):\<close> followed by the final
  \<^verbatim>\<open>return self.login_failure()\<close>. The \<^verbatim>\<open>assert\<close> is a branch.
\<close>

definition error_branch :: "env \<Rightarrow> request \<Rightarrow> event list \<Rightarrow> outcome" where
  "error_branch e r t =
     (let (r1, t1) = (if is_authenticated (user r)
                      then (auth_logout e r, t @ [AuthLogout])
                      else (r, t))
      in if is_authenticated (user r1) then (Inl AssertionError, r1, t1)
         else (Inr (login_failure e), r1, t1))"

definition state_mismatch_msg :: string where
  "state_mismatch_msg = ''Session `oidc_state` does not match the OIDC callback state''"

text \<open>
  The body of \<^verbatim>\<open>elif 'code' in request.GET and 'state' in request.GET:\<close>,
  again with the final \<^verbatim>\<open>return self.login_failure()\<close>.
\<close>

definition code_branch :: "env \<Rightarrow> pyval \<Rightarrow> request \<Rightarrow> event list \<Rightarrow> outcome" where
  "code_branch e nonce r t =
     (case session r ''oidc_state'' of
        None \<Rightarrow> (Inr (login_failure e), r, t)
      | Some stored \<Rightarrow>
          if query_get (GET r) ''state'' \<noteq> stored
          then (Inl (SuspiciousOperation state_mismatch_msg), r, t)
          else (case auth_authenticate e r nonce of
                  (Inl x, r1) \<Rightarrow> (Inl x, r1, t @ [AuthAuthenticate nonce])
                | (Inr None, r1) \<Rightarrow> (Inr (login_failure e), r1, t @ [AuthAuthenticate nonce])
                | (Inr (Some u), r1) \<Rightarrow>
                    if is_active u
                    then (case login_success e r1 u of
                            (resp, r2, t2) \<Rightarrow> (Inr resp, r2, t @ [AuthAuthenticate nonce] @ t2))
                    else (Inr (login_failure e), r1, t @ [AuthAuthenticate nonce])))"

text \<open>\<^verbatim>\<open>OIDCAuthenticationCallbackView.get\<close>.\<close>

definition get :: "env \<Rightarrow> request \<Rightarrow> outcome" where
  "get e request =
     (case consume_nonce request of
        (nonce, r, t) \<Rightarrow>
          if truthy (query_get (GET r) ''error'') then error_branch e r t
          else if has_key (GET r) ''code'' \<and> has_key (GET r) ''state''
          then code_branch e nonce r t
          else (Inr (login_failure e), r, t))"

text \<open>
  In \<open>get\<close> the class \<^verbatim>\<open>HttpResponseRedirect\<close> is the constructor of a value.
  Django's constructor also checks the target and raises
  \<^verbatim>\<open>DisallowedRedirect\<close> for one it refuses. The handler constructs its
  response in the last step of every path (\<^verbatim>\<open>login_failure\<close> and
  \<^verbatim>\<open>login_success\<close> end with it), when all its effects have happened:
  \<open>constructed\<close> applies the check to an outcome, the request and the effects staying as
  they are, and \<open>callback\<close> is the handler with the check.
\<close>

definition constructed :: "env \<Rightarrow> outcome \<Rightarrow> outcome" where
  "constructed e out =
     (case out of
        (Inr (HttpResponseRedirect target), r, t) \<Rightarrow>
          if allowed_redirect e target then out else (Inl DisallowedRedirect, r, t)
      | _ \<Rightarrow> out)"

definition callback :: "env \<Rightarrow> request \<Rightarrow> outcome" where
  "callback e request = constructed e (get e request)"

section \<open>get_next_url\<close>

text \<open>
  \<^verbatim>\<open>get_next_url\<close>, with the heap passed in and returned: the default
  \<^verbatim>\<open>[]\<close> is a new list, \<^verbatim>\<open>list(...)\<close> copies the configured list (or
  the default) into a new list \<^verbatim>\<open>hosts\<close>, and \<^verbatim>\<open>hosts.append\<close> changes
  that list in place. \<^verbatim>\<open>request.get_host()\<close> is evaluated before the
  \<^verbatim>\<open>append\<close> and may raise, and so may \<^verbatim>\<open>is_safe_url\<close>; the function
  has no \<^verbatim>\<open>try\<close>, so both exceptions leave it.
\<close>

definition get_next_url ::
  "env \<Rightarrow> heap \<Rightarrow> request \<Rightarrow> string \<Rightarrow> (exn + string option) \<times> heap" where
  "get_next_url e h request redirect_field_name =
     (case GET request redirect_field_name of
        None \<Rightarrow> (Inr None, h)
      | Some next_url \<Rightarrow>
          if next_url \<noteq> '''' then
            (let require_https =
                   import_from_settings (OIDC_REDIRECT_REQUIRE_HTTPS (settings e))
                     (is_secure request);
                 (dflt, h1) = new_list h [];
                 configured = import_from_settings (OIDC_REDIRECT_ALLOWED_HOSTS (settings e)) dflt;
                 (hosts, h2) = new_list h1 (list_at h1 configured)
             in case get_host request of
                  Inl x \<Rightarrow> (Inl x, h2)
                | Inr host \<Rightarrow>
                    (let h3 = list_append h2 hosts host
                     in case is_safe_url e next_url require_https (list_at h3 hosts) of
                          Inl x \<Rightarrow> (Inl x, h3)
                        | Inr is_safe \<Rightarrow>
                            if is_safe then (Inr (Some next_url), h3) else (Inr None, h3)))
          else (Inr None, h))"

section \<open>OIDCLogoutView\<close>

definition redirect_url :: "env \<Rightarrow> pyval" where
  "redirect_url e = PStr (get_settings (LOGOUT_REDIRECT_URL (settings e)) ''/'')"

text \<open>\<^verbatim>\<open>OIDCLogoutView.post\<close>.\<close>

definition post :: "env \<Rightarrow> request \<Rightarrow> outcome" where
  "post e request =
     (let logout_url = redirect_url e
      in if is_authenticated (user request) then
           (let logout_from_op = get_settings (OIDC_OP_LOGOUT_URL_METHOD (settings e)) ''''
            in if logout_from_op \<noteq> '''' then
                 (case import_string e logout_from_op of
                    None \<Rightarrow> (Inl ImportError, request, [])
                  | Some f \<Rightarrow>
                      (case f request of
                         Inl x \<Rightarrow> (Inl x, request, [LogoutUrlMethod logout_from_op])
                       | Inr url \<Rightarrow>
                           (Inr (HttpResponseRedirect url), auth_logout e request,
                            [LogoutUrlMethod logout_from_op, AuthLogout])))
               else (Inr (HttpResponseRedirect logout_url), auth_logout e request,
                     [AuthLogout]))
         else (Inr (HttpResponseRedirect logout_url), request, []))"

text \<open>
  \<^verbatim>\<open>django.views.generic.View.dispatch\<close>, the framework's entry into a class
  based view: the handler is the method of the view named like the verb when the verb
  is listed in \<^verbatim>\<open>http_method_names\<close> and the view has such a method, and
  \<^verbatim>\<open>http_method_not_allowed\<close> otherwise, which answers 405 with the listed verbs
  that have a method. \<open>handlers\<close> are the methods the view class defines.
\<close>

definition dispatch ::
  "verb list \<Rightarrow> (verb \<rightharpoonup> (env \<Rightarrow> request \<Rightarrow> outcome)) \<Rightarrow> env \<Rightarrow> request \<Rightarrow> outcome" where
  "dispatch http_method_names handlers e request =
     (let not_allowed =
            (Inr (HttpResponseNotAllowed (filter (has_key handlers) http_method_names)),
             request, [])
      in if verb request \<in> set http_method_names then
           (case handlers (verb request) of
              Some handler \<Rightarrow> handler e request
            | None \<Rightarrow> not_allowed)
         else not_allowed)"

text \<open>
  The two views as the framework runs them: \<^verbatim>\<open>http_method_names\<close> as declared
  in the class, and the handler methods the class defines.
\<close>

definition OIDCAuthenticationCallbackView :: "env \<Rightarrow> request \<Rightarrow> outcome" where
  "OIDCAuthenticationCallbackView = dispatch [HttpGet] [HttpGet \<mapsto> get]"

definition OIDCLogoutView :: "env \<Rightarrow> request \<Rightarrow> outcome" where
  "OIDCLogoutView = dispatch [HttpGet, HttpPost] [HttpPost \<mapsto> post]"

section \<open>Scenarios\<close>





text \<open>
  A concrete environment and concrete requests, for evaluating the views: nothing is
  configured, the backend accepts every callback as the active user alice, login and
  logout set the current user, and logout also empties the session. A next URL is
  safe when it is a path on the same host, and a redirect is refused when its target
  has the scheme \<open>javascript\<close>.
\<close>

definition alice :: principal where
  "alice = \<lparr>username = ''alice'', is_active = True\<rparr>"

definition sample_settings :: settings where
  "sample_settings =
     \<lparr>LOGIN_REDIRECT_URL_FAILURE = None, LOGIN_REDIRECT_URL = None,
      OIDC_RENEW_ID_TOKEN_EXPIRY_SECONDS = None, OIDC_REDIRECT_REQUIRE_HTTPS = None,
      OIDC_REDIRECT_ALLOWED_HOSTS = None, LOGOUT_REDIRECT_URL = None,
      OIDC_OP_LOGOUT_URL_METHOD = None\<rparr>"

definition sample_env :: env where
  "sample_env =
     \<lparr>settings = sample_settings,
      auth_authenticate = (\<lambda>r n. (Inr (Some alice), r)),
      auth_login = (\<lambda>r u. r\<lparr>user := User u\<rparr>),
      auth_logout = (\<lambda>r. r\<lparr>session := Map.empty, user := AnonymousUser\<rparr>),
      time_time = 1000,
      is_safe_url = (\<lambda>url require_https hosts.
                       Inr (take 1 url = ''/'' \<and> take 2 url \<noteq> ''//'')),
      import_string = (\<lambda>path. None),
      allowed_redirect = (\<lambda>target. case target of
                            PStr url \<Rightarrow> take 11 url \<noteq> ''javascript:'' | _ \<Rightarrow> True)\<rparr>"

text \<open>
  A callback that answers the authentication request whose state is \<open>s0\<close> and
  whose nonce is \<open>n0\<close>.
\<close>

definition callback_request :: request where
  "callback_request =
     \<lparr>verb = HttpGet,
      GET = [''code'' \<mapsto> ''c0'', ''state'' \<mapsto> ''s0''],
      session = [''oidc_state'' \<mapsto> PStr ''s0'', ''oidc_nonce'' \<mapsto> PStr ''n0'',
                 ''oidc_login_next'' \<mapsto> PStr ''/dashboard''],
      user = AnonymousUser,
      is_secure = True,
      get_host = Inr ''example.com''\<rparr>"

text \<open>The same callback with a state the session does not hold.\<close>

definition forged_request :: request where
  "forged_request = callback_request\<lparr>GET := [''code'' \<mapsto> ''c0'', ''state'' \<mapsto> ''forged'']\<rparr>"

text \<open>A forged callback that also reports an error of the OP.\<close>

definition forged_error_request :: request where
  "forged_error_request =
     callback_request\<lparr>GET := [''error'' \<mapsto> ''access_denied'', ''code'' \<mapsto> ''c0'',
                                ''state'' \<mapsto> ''forged'']\<rparr>"



text \<open>A callback with an empty error parameter, from a user who is logged in.\<close>

definition empty_error_request :: request where
  "empty_error_request =
     callback_request\<lparr>GET := [''error'' \<mapsto> '''', ''code'' \<mapsto> ''c0'', ''state'' \<mapsto> ''s0''],
                       user := User alice\<rparr>"

text \<open>
  The same environment with \<^verbatim>\<open>auth.login\<close> as Django has it for the data of the
  session: a session that belongs to another user is replaced by an empty one, a
  session of the same user or of nobody is kept. And a callback that arrives in the
  session of bob.
\<close>

definition bob :: principal where
  "bob = \<lparr>username = ''bob'', is_active = True\<rparr>"

definition switching_login :: "request \<Rightarrow> principal \<Rightarrow> request" where
  "switching_login r u =
     (if is_authenticated (user r) \<and> user r \<noteq> User u
      then r\<lparr>session := Map.empty, user := User u\<rparr>
      else r\<lparr>user := User u\<rparr>)"

definition switching_env :: env where
  "switching_env = sample_env\<lparr>auth_login := switching_login\<rparr>"

definition switch_request :: request where
  "switch_request = callback_request\<lparr>user := User bob\<rparr>"

text \<open>
  The same environment with a success URL whose scheme the constructor of the redirect
  refuses.
\<close>

definition scheme_env :: env where
  "scheme_env =
     sample_env\<lparr>settings := sample_settings\<lparr>LOGIN_REDIRECT_URL := Some ''javascript:void(0)''\<rparr>\<rparr>"

text \<open>
  Requests that name a next URL: a path on the same host, a URL on another host, an
  empty one, and a path sent with a Host header that the framework refuses. The
  heap holds one list, the configured hosts, at address 0.
\<close>

definition next_request :: "string \<Rightarrow> request" where
  "next_request url = callback_request\<lparr>GET := [''next'' \<mapsto> url]\<rparr>"

definition bad_host_request :: request where
  "bad_host_request = (next_request ''/dashboard'')\<lparr>get_host := Inl DisallowedHost\<rparr>"

definition hosts_heap :: heap where
  "hosts_heap = [[''sso.example.com'']]"

definition hosts_env :: env where
  "hosts_env =
     sample_env\<lparr>settings := sample_settings\<lparr>OIDC_REDIRECT_ALLOWED_HOSTS := Some 0\<rparr>,
                is_safe_url := (\<lambda>url require_https hosts.
                  Inr (hosts = [''sso.example.com'', ''example.com''] \<and> require_https \<and>
                       take 1 url = ''/'' \<and> take 2 url \<noteq> ''//''))\<rparr>"

section \<open>The steps of the callback handler\<close>

lemma consume_nonce_eq:
  "consume_nonce r = (nonce, r1, t) \<Longrightarrow>
     nonce = session_get (session r) ''oidc_nonce'' \<and> GET r1 = GET r \<and> user r1 = user r \<and>
     session r1 ''oidc_state'' = session r ''oidc_state'' \<and>
     session r1 ''oidc_login_next'' = session r ''oidc_login_next'' \<and>
     \<not> truthy (session_get (session r1) ''oidc_nonce'')"
  by (auto simp: consume_nonce_def Let_def session_get_def split: if_splits)

text \<open>A value that is not truthy (\<^verbatim>\<open>None\<close>, the empty string, zero) stays in the session.\<close>

lemma consume_nonce_falsy:
  "\<not> truthy (session_get (session r) ''oidc_nonce'') \<Longrightarrow>
     consume_nonce r = (session_get (session r) ''oidc_nonce'', r, [])"
  by (simp add: consume_nonce_def)

lemma consume_nonce_effects:
  "consume_nonce r = (nonce, r1, t) \<Longrightarrow>
     AuthLogout \<notin> set t \<and> (\<forall>n. AuthAuthenticate n \<notin> set t)"
  by (auto simp: consume_nonce_def Let_def split: if_splits)



text \<open>
  Whatever \<^verbatim>\<open>auth.logout\<close> does, the assertion lets the error branch answer only
  for a user who is not authenticated.
\<close>

lemma error_branch_returns:
  "fst (error_branch e r t) = Inr resp \<Longrightarrow>
     resp = login_failure e \<and> \<not> is_authenticated (user (fst (snd (error_branch e r t))))"
  by (auto simp: error_branch_def Let_def split: if_splits)


lemma login_failure_backend [simp]:
  "login_failure (e\<lparr>auth_authenticate := a\<rparr>) = login_failure e"
  by (simp add: login_failure_def failure_url_def)

lemma error_branch_backend [simp]:
  "error_branch (e\<lparr>auth_authenticate := a\<rparr>) r t = error_branch e r t"
  by (simp add: error_branch_def)

lemma code_branch_trace:
  "\<exists>t'. snd (snd (code_branch e n r t)) = t @ t' \<and> AuthLogout \<notin> set t' \<and>
     (\<forall>k. SessionDel k \<notin> set t')"
  by (auto simp: code_branch_def login_success_def Let_def
      split: option.splits sum.splits prod.splits)


lemma code_branch_match:
  assumes "GET r ''state'' = Some s" and "session r ''oidc_state'' = Some (PStr s)"
  shows "code_branch e n r t =
     (case auth_authenticate e r n of
        (Inl x, r1) \<Rightarrow> (Inl x, r1, t @ [AuthAuthenticate n])
      | (Inr None, r1) \<Rightarrow> (Inr (login_failure e), r1, t @ [AuthAuthenticate n])
      | (Inr (Some u), r1) \<Rightarrow>
          if is_active u
          then (case login_success e r1 u of
                  (resp, r2, t2) \<Rightarrow> (Inr resp, r2, t @ [AuthAuthenticate n] @ t2))
          else (Inr (login_failure e), r1, t @ [AuthAuthenticate n]))"
  using assms by (simp add: code_branch_def query_get_def)

text \<open>
  A stored \<open>oidc_login_next\<close> that is not truthy (\<^verbatim>\<open>None\<close>, which the
  authentication request stores when it has no safe next URL, or the empty string)
  gives the configured success URL.
\<close>

lemma success_url_default:
  "\<not> truthy (session_get (session r) ''oidc_login_next'') \<Longrightarrow>
     success_url e r = PStr (import_from_settings (LOGIN_REDIRECT_URL (settings e)) ''/'')"
  by (simp add: success_url_def get_settings_def)





section \<open>The evaluation of the scenarios\<close>






section \<open>The callback handler\<close>

subsection \<open>State mismatch\<close>

text \<open>
  A callback that carries \<open>code\<close> and \<open>state\<close>, a state that differs from the stored
  \<open>oidc_state\<close>, and also a non-empty \<open>error\<close>: the error branch is tested first, so
  the handler answers with the ordinary redirect to the failure URL and raises nothing.
\<close>

theorem state_mismatch_error_counterexample:
  "has_key (GET forged_error_request) ''code'' \<and>
   has_key (GET forged_error_request) ''state'' \<and>
   session forged_error_request ''oidc_state'' = Some (PStr ''s0'') \<and>
   GET forged_error_request ''state'' = Some ''forged'' \<and>
   get sample_env forged_error_request =
     (Inr (HttpResponseRedirect (PStr ''/'')),
      forged_error_request\<lparr>session := (session forged_error_request)(''oidc_nonce'' := None)\<rparr>,
      [SessionDel ''oidc_nonce''])"
  by (simp add: get_def consume_nonce_def forged_error_request_def callback_request_def
      session_get_def query_get_def has_key_def error_branch_def login_failure_def failure_url_def
      get_settings_def import_from_settings_def sample_env_def sample_settings_def)

text \<open>
  C1, as the handler has it: a callback without a non-empty \<open>error\<close> parameter that
  carries \<open>code\<close> and \<open>state\<close>, against a session that holds an \<open>oidc_state\<close>
  different from the state of the callback, raises \<^verbatim>\<open>SuspiciousOperation\<close>. No
  response is returned, and the handler has performed nothing but the removal of the
  nonce: no collaborator was called.
\<close>

theorem state_mismatch_raises:
  assumes "\<not> truthy (query_get (GET r) ''error'')"
    and "has_key (GET r) ''code''"
    and "GET r ''state'' = Some s"
    and "session r ''oidc_state'' = Some stored"
    and "stored \<noteq> PStr s"
  shows "fst (get e r) = Inl (SuspiciousOperation state_mismatch_msg) \<and>
         snd (snd (get e r)) = snd (snd (consume_nonce r))"
proof -
  obtain nonce r1 t where c: "consume_nonce r = (nonce, r1, t)"
    by (cases "consume_nonce r") auto
  from consume_nonce_eq [OF c] assms
  have "code_branch e nonce r1 t = (Inl (SuspiciousOperation state_mismatch_msg), r1, t)"
    by (auto simp: code_branch_def query_get_def)
  with consume_nonce_eq [OF c] assms c show ?thesis
    by (simp add: get_def has_key_def)
qed

theorem state_mismatch_raises_witness:
  "\<not> truthy (query_get (GET forged_request) ''error'') \<and>
   has_key (GET forged_request) ''code'' \<and>
   GET forged_request ''state'' = Some ''forged'' \<and>
   session forged_request ''oidc_state'' = Some (PStr ''s0'') \<and>
   fst (get sample_env forged_request) = Inl (SuspiciousOperation state_mismatch_msg)"
  using state_mismatch_raises [of forged_request "''forged''" "PStr ''s0''" sample_env]
  by (simp add: forged_request_def callback_request_def query_get_def has_key_def)

subsection \<open>Nonce consumption\<close>



subsection \<open>Two identical callbacks\<close>




subsection \<open>The error branch\<close>



subsection \<open>No stored state\<close>



subsection \<open>The constructor of the redirect\<close>

text \<open>
  What \<^verbatim>\<open>HttpResponseRedirect\<close> does to an outcome, and the responses of
  \<open>get\<close>.
\<close>

lemma constructed_redirect:
  "constructed e (Inr (HttpResponseRedirect target), r, t) =
     (if allowed_redirect e target then Inr (HttpResponseRedirect target)
      else Inl DisallowedRedirect, r, t)"
  by (simp add: constructed_def)




text \<open>
  Where \<open>get\<close> answers with the redirect to the failure URL, the handler with the
  check answers with it when the constructor accepts the configured failure URL.
\<close>

lemma failure_redirect_constructed:
  "fst (get e r) = Inr (login_failure e) \<Longrightarrow>
     fst (callback e r) =
       (if allowed_redirect e (failure_url e) then Inr (login_failure e)
        else Inl DisallowedRedirect)"
  by (cases "get e r") (simp add: callback_def constructed_def login_failure_def)



subsection \<open>Success\<close>

text \<open>
  The handler reads \<open>oidc_login_next\<close> from the session after \<^verbatim>\<open>auth.login\<close>.
  A callback that arrives in the session of another user: Django's login replaces that
  session, the stored \<open>/dashboard\<close> is gone, and the redirect goes to the default.
\<close>

theorem login_next_lost_counterexample:
  "\<not> truthy (query_get (GET switch_request) ''error'') \<and>
   GET switch_request ''state'' = Some ''s0'' \<and>
   session switch_request ''oidc_state'' = Some (PStr ''s0'') \<and>
   session switch_request ''oidc_login_next'' = Some (PStr ''/dashboard'') \<and>
   fst (auth_authenticate switching_env
          (switch_request\<lparr>session := (session switch_request)(''oidc_nonce'' := None)\<rparr>)
          (PStr ''n0'')) = Inr (Some alice) \<and>
   is_active alice \<and>
   fst (get switching_env switch_request) = Inr (HttpResponseRedirect (PStr ''/'')) \<and>
   fst (callback switching_env switch_request) = Inr (HttpResponseRedirect (PStr ''/''))"
  by (simp add: callback_def constructed_def get_def consume_nonce_def switch_request_def
      callback_request_def session_get_def query_get_def has_key_def code_branch_def
      switching_env_def switching_login_def sample_env_def sample_settings_def alice_def bob_def
      login_success_def success_url_def get_settings_def import_from_settings_def Let_def)

text \<open>
  C6, as the handler has it: a callback without a non-empty \<open>error\<close>, with \<open>code\<close>
  and a \<open>state\<close> equal to the stored \<open>oidc_state\<close>, for which the backend returns an
  active principal. \<^verbatim>\<open>auth.login\<close> is called for that principal, the session
  key \<open>oidc_id_token_expiration\<close> is set to the current time plus the configured
  interval (900 seconds when none is configured), and the target of the redirect is
  the \<open>oidc_login_next\<close> that the session holds after \<^verbatim>\<open>auth.login\<close> when that
  is a non-empty value, and the configured success URL otherwise (\<open>/\<close> when none is
  configured). The response is the redirect to that target, unless the constructor of
  the redirect refuses the target: then \<^verbatim>\<open>DisallowedRedirect\<close> is raised, with
  the user logged in and the expiration stored.
\<close>

theorem active_principal_logged_in:
  assumes "\<not> truthy (query_get (GET r) ''error'')"
    and "has_key (GET r) ''code''"
    and "GET r ''state'' = Some s"
    and "session r ''oidc_state'' = Some (PStr s)"
    and "consume_nonce r = (nonce, r1, t1)"
    and "auth_authenticate e r1 nonce = (Inr (Some u), r2)"
    and "is_active u"
  shows "callback e r =
           (let r3 = auth_login e r2 u;
                expiration = PNum (time_time e +
                  (case OIDC_RENEW_ID_TOKEN_EXPIRY_SECONDS (settings e) of
                     None \<Rightarrow> 900 | Some seconds \<Rightarrow> seconds));
                target =
                  (if truthy (session_get (session r3) ''oidc_login_next'')
                   then session_get (session r3) ''oidc_login_next''
                   else PStr (case LOGIN_REDIRECT_URL (settings e) of
                                None \<Rightarrow> ''/'' | Some url \<Rightarrow> url))
            in (if allowed_redirect e target then Inr (HttpResponseRedirect target)
                else Inl DisallowedRedirect,
                r3\<lparr>session := (session r3)(''oidc_id_token_expiration'' \<mapsto> expiration)\<rparr>,
                t1 @ [AuthAuthenticate nonce, AuthLogin u,
                      SessionSet ''oidc_id_token_expiration'' expiration]))"
proof -
  note f = consume_nonce_eq [OF assms(5)]
  have m: "GET r1 ''state'' = Some s" "session r1 ''oidc_state'' = Some (PStr s)"
    using f assms(3,4) by simp_all
  have g: "get e r = code_branch e nonce r1 t1"
    using f assms(1,2,3) by (simp add: get_def assms(5) has_key_def)
  have "code_branch e nonce r1 t1 =
      (case login_success e r2 u of
         (resp, r3, t2) \<Rightarrow> (Inr resp, r3, t1 @ [AuthAuthenticate nonce] @ t2))"
    using assms(6,7) by (simp add: code_branch_match [OF m])
  then have "get e r =
      (let r3 = auth_login e r2 u;
           expiration = PNum (time_time e +
             (case OIDC_RENEW_ID_TOKEN_EXPIRY_SECONDS (settings e) of
                None \<Rightarrow> 900 | Some seconds \<Rightarrow> seconds));
           target =
             (if truthy (session_get (session r3) ''oidc_login_next'')
              then session_get (session r3) ''oidc_login_next''
              else PStr (case LOGIN_REDIRECT_URL (settings e) of
                           None \<Rightarrow> ''/'' | Some url \<Rightarrow> url))
       in (Inr (HttpResponseRedirect target),
           r3\<lparr>session := (session r3)(''oidc_id_token_expiration'' \<mapsto> expiration)\<rparr>,
           t1 @ [AuthAuthenticate nonce, AuthLogin u,
                 SessionSet ''oidc_id_token_expiration'' expiration]))"
    by (simp add: g login_success_def Let_def success_url_def session_get_def get_settings_def
        import_from_settings_def split: option.splits)
  then show ?thesis
    by (simp add: callback_def Let_def constructed_redirect)
qed

theorem active_principal_logged_in_witness:
  "\<not> truthy (query_get (GET callback_request) ''error'') \<and>
   has_key (GET callback_request) ''code'' \<and>
   GET callback_request ''state'' = Some ''s0'' \<and>
   session callback_request ''oidc_state'' = Some (PStr ''s0'') \<and>
   fst (callback sample_env callback_request) = Inr (HttpResponseRedirect (PStr ''/dashboard'')) \<and>
   session (fst (snd (callback sample_env callback_request))) ''oidc_id_token_expiration'' =
     Some (PNum 1900) \<and>
   user (fst (snd (callback sample_env callback_request))) = User alice \<and>
   snd (snd (callback sample_env callback_request)) =
     [SessionDel ''oidc_nonce'', AuthAuthenticate (PStr ''n0''), AuthLogin alice,
      SessionSet ''oidc_id_token_expiration'' (PNum 1900)]"
proof -
  let ?r1 = "callback_request\<lparr>session := (session callback_request)(''oidc_nonce'' := None)\<rparr>"
  have h1: "\<not> truthy (query_get (GET callback_request) ''error'')"
    by (simp add: callback_request_def query_get_def)
  have h2: "has_key (GET callback_request) ''code''"
    by (simp add: callback_request_def has_key_def)
  have h3: "GET callback_request ''state'' = Some ''s0''"
    by (simp add: callback_request_def)
  have h4: "session callback_request ''oidc_state'' = Some (PStr ''s0'')"
    by (simp add: callback_request_def)
  have h5: "consume_nonce callback_request = (PStr ''n0'', ?r1, [SessionDel ''oidc_nonce''])"
    by (simp add: consume_nonce_def callback_request_def session_get_def)
  have h6: "auth_authenticate sample_env ?r1 (PStr ''n0'') = (Inr (Some alice), ?r1)"
    by (simp add: sample_env_def)
  have h7: "is_active alice"
    by (simp add: alice_def)
  have a: "OIDC_RENEW_ID_TOKEN_EXPIRY_SECONDS (settings sample_env) = None"
      "time_time sample_env = 1000"
      "auth_login sample_env ?r1 alice = ?r1\<lparr>user := User alice\<rparr>"
      "allowed_redirect sample_env (PStr ''/dashboard'')"
    by (simp_all add: sample_env_def sample_settings_def)
  have n: "session_get ((session callback_request)(''oidc_nonce'' := None)) ''oidc_login_next'' =
      PStr ''/dashboard''"
    by (simp add: callback_request_def session_get_def)
  from active_principal_logged_in [OF h1 h2 h3 h4 h5 h6 h7]
  have "callback sample_env callback_request =
      (Inr (HttpResponseRedirect (PStr ''/dashboard'')),
       ?r1\<lparr>user := User alice,
            session := (session ?r1)(''oidc_id_token_expiration'' \<mapsto> PNum 1900)\<rparr>,
       [SessionDel ''oidc_nonce'', AuthAuthenticate (PStr ''n0''), AuthLogin alice,
        SessionSet ''oidc_id_token_expiration'' (PNum 1900)])"
    by (simp add: a n Let_def)
  with h1 h2 h3 h4 show ?thesis by simp
qed

text \<open>
  With a configured success URL of a scheme that the constructor refuses, the callback
  logs alice in, stores the expiration and raises.
\<close>

lemma success_redirect_refused:
  "callback scheme_env (callback_request\<lparr>session := [''oidc_state'' \<mapsto> PStr ''s0'']\<rparr>) =
     (Inl DisallowedRedirect,
      callback_request\<lparr>session := [''oidc_state'' \<mapsto> PStr ''s0'',
                                     ''oidc_id_token_expiration'' \<mapsto> PNum 1900],
                       user := User alice\<rparr>,
      [AuthAuthenticate PNone, AuthLogin alice,
       SessionSet ''oidc_id_token_expiration'' (PNum 1900)])"
  by (simp add: callback_def constructed_def get_def consume_nonce_def
      callback_request_def session_get_def query_get_def has_key_def code_branch_def
      scheme_env_def sample_env_def sample_settings_def alice_def
      login_success_def success_url_def get_settings_def import_from_settings_def Let_def)


subsection \<open>The outcomes of the callback handler\<close>





subsection \<open>An empty error parameter\<close>

text \<open>
  C10: a callback whose \<open>error\<close> parameter is present and empty does not take the
  error branch, since the handler tests the truth value of the parameter:
  \<^verbatim>\<open>auth.logout\<close> is not called, and the handler runs the code branch when
  \<open>code\<close> and \<open>state\<close> are both present and returns the redirect to the failure URL
  otherwise.
\<close>

theorem empty_error_is_no_error:
  assumes "GET r ''error'' = Some ''''"
  shows "get e r =
           (case consume_nonce r of
              (nonce, r1, t) \<Rightarrow>
                if has_key (GET r1) ''code'' \<and> has_key (GET r1) ''state''
                then code_branch e nonce r1 t
                else (Inr (login_failure e), r1, t)) \<and>
         AuthLogout \<notin> set (snd (snd (get e r)))"
proof -
  obtain nonce r1 t where c: "consume_nonce r = (nonce, r1, t)"
    by (cases "consume_nonce r") auto
  note f = consume_nonce_eq [OF c]
  have n: "\<not> truthy (query_get (GET r1) ''error'')"
    using f assms by (simp add: query_get_def)
  have g: "get e r =
      (if has_key (GET r1) ''code'' \<and> has_key (GET r1) ''state''
       then code_branch e nonce r1 t else (Inr (login_failure e), r1, t))"
    using n by (simp add: get_def c)
  have t: "AuthLogout \<notin> set t"
    using consume_nonce_effects [OF c] by simp
  obtain t' where "snd (snd (code_branch e nonce r1 t)) = t @ t'" and "AuthLogout \<notin> set t'"
    using code_branch_trace by blast
  with t have "AuthLogout \<notin> set (snd (snd (get e r)))"
    by (simp add: g)
  with g show ?thesis by (simp add: c)
qed

theorem empty_error_is_no_error_witness:
  "GET empty_error_request ''error'' = Some '''' \<and>
   is_authenticated (user empty_error_request) \<and>
   AuthLogout \<notin> set (snd (snd (get sample_env empty_error_request)))"
proof -
  have h: "GET empty_error_request ''error'' = Some ''''"
    by (simp add: empty_error_request_def)
  have "is_authenticated (user empty_error_request)"
    by (simp add: empty_error_request_def)
  moreover note empty_error_is_no_error [OF h, of sample_env, THEN conjunct2]
  ultimately show ?thesis using h by (intro conjI)
qed

section \<open>The next URL\<close>

text \<open>
  A next URL sent with a Host header that the framework refuses:
  \<^verbatim>\<open>request.get_host()\<close> raises, and the exception leaves
  \<^verbatim>\<open>get_next_url\<close>.
\<close>

theorem next_url_disallowed_host_counterexample:
  "GET bad_host_request ''next'' = Some ''/dashboard'' \<and>
   get_host bad_host_request = Inl DisallowedHost \<and>
   fst (get_next_url sample_env [] bad_host_request ''next'') = Inl DisallowedHost"
  by (simp add: get_next_url_def bad_host_request_def next_request_def callback_request_def
      new_list_def Let_def)

text \<open>
  C8, as the function has it: \<^verbatim>\<open>get_next_url\<close> returns \<^verbatim>\<open>None\<close> when
  the named query parameter is absent or empty, and then it allocates nothing.
  Otherwise its result is that of its two calls: the exception of
  \<^verbatim>\<open>request.get_host()\<close>; else the exception of \<^verbatim>\<open>is_safe_url\<close>; else
  the candidate when \<^verbatim>\<open>is_safe_url\<close> accepts it and \<^verbatim>\<open>None\<close> when it
  does not. \<^verbatim>\<open>is_safe_url\<close> is asked for the configured
  \<^verbatim>\<open>OIDC_REDIRECT_ALLOWED_HOSTS\<close> followed by the host of the request, with
  \<^verbatim>\<open>require_https\<close> the configured \<^verbatim>\<open>OIDC_REDIRECT_REQUIRE_HTTPS\<close> and,
  when none is configured, whether the request is secure. The function raises nothing
  of its own. It has no side effect: every list that existed before the call, the
  configured one among them, is the same afterwards, since the host is appended to a
  copy.
\<close>

theorem next_url_result:
  "(GET r field = None \<or> GET r field = Some '''' \<longrightarrow>
      get_next_url e h r field = (Inr None, h)) \<and>
   (\<forall>url. GET r field = Some url \<and> url \<noteq> '''' \<longrightarrow>
      fst (get_next_url e h r field) =
        (case get_host r of
           Inl x \<Rightarrow> Inl x
         | Inr host \<Rightarrow>
             (case is_safe_url e url
                     (case OIDC_REDIRECT_REQUIRE_HTTPS (settings e) of
                        None \<Rightarrow> is_secure r | Some b \<Rightarrow> b)
                     ((case OIDC_REDIRECT_ALLOWED_HOSTS (settings e) of
                         None \<Rightarrow> [] | Some a \<Rightarrow> list_at h a) @ [host]) of
                Inl x \<Rightarrow> Inl x
              | Inr is_safe \<Rightarrow> Inr (if is_safe then Some url else None)))) \<and>
   take (length h) (snd (get_next_url e h r field)) = h"
proof (intro conjI allI impI)
  assume "GET r field = None \<or> GET r field = Some ''''"
  then show "get_next_url e h r field = (Inr None, h)"
    by (auto simp: get_next_url_def)
next
  fix url
  assume a: "GET r field = Some url \<and> url \<noteq> ''''"
  define configured where
    "configured = import_from_settings (OIDC_REDIRECT_ALLOWED_HOSTS (settings e)) (length h)"
  have c: "list_at (h @ [[]]) configured =
      (case OIDC_REDIRECT_ALLOWED_HOSTS (settings e) of None \<Rightarrow> [] | Some a \<Rightarrow> list_at h a)"
    by (auto simp: configured_def import_from_settings_def list_at_def nth_append
        split: option.splits)
  have l: "list_at (list_append (h @ [[], xs]) (Suc (length h)) host) (Suc (length h)) =
      xs @ [host]" for xs host
    by (simp add: list_append_def list_at_def nth_append)
  show "fst (get_next_url e h r field) =
        (case get_host r of
           Inl x \<Rightarrow> Inl x
         | Inr host \<Rightarrow>
             (case is_safe_url e url
                     (case OIDC_REDIRECT_REQUIRE_HTTPS (settings e) of
                        None \<Rightarrow> is_secure r | Some b \<Rightarrow> b)
                     ((case OIDC_REDIRECT_ALLOWED_HOSTS (settings e) of
                         None \<Rightarrow> [] | Some a \<Rightarrow> list_at h a) @ [host]) of
                Inl x \<Rightarrow> Inl x
              | Inr is_safe \<Rightarrow> Inr (if is_safe then Some url else None)))"
    using a c
    by (simp add: get_next_url_def new_list_def Let_def configured_def [symmetric] l
        import_from_settings_def [of "OIDC_REDIRECT_REQUIRE_HTTPS (settings e)"]
        split: sum.splits)
next
  show "take (length h) (snd (get_next_url e h r field)) = h"
    by (simp add: get_next_url_def new_list_def list_append_def Let_def
        split: option.splits sum.splits)
qed

theorem next_url_result_witness:
  "fst (get_next_url hosts_env hosts_heap (next_request ''/dashboard'') ''next'') =
     Inr (Some ''/dashboard'') \<and>
   fst (get_next_url hosts_env hosts_heap (next_request ''//evil.example/x'') ''next'') =
     Inr None \<and>
   get_next_url hosts_env hosts_heap (next_request '''') ''next'' = (Inr None, hosts_heap) \<and>
   get_next_url hosts_env hosts_heap callback_request ''next'' = (Inr None, hosts_heap) \<and>
   fst (get_next_url hosts_env hosts_heap bad_host_request ''next'') = Inl DisallowedHost \<and>
   take 1 (snd (get_next_url hosts_env hosts_heap (next_request ''/dashboard'') ''next'')) =
     hosts_heap"
proof -
  have s: "OIDC_REDIRECT_REQUIRE_HTTPS (settings hosts_env) = None"
      "OIDC_REDIRECT_ALLOWED_HOSTS (settings hosts_env) = Some 0"
      "list_at hosts_heap 0 = [''sso.example.com'']"
      "length hosts_heap = 1"
    by (simp_all add: hosts_env_def sample_env_def sample_settings_def hosts_heap_def list_at_def)
  have i: "is_safe_url hosts_env url True [''sso.example.com'', ''example.com''] =
      Inr (take 1 url = ''/'' \<and> take 2 url \<noteq> ''//'')" for url
    by (simp add: hosts_env_def)
  have "fst (get_next_url hosts_env hosts_heap (next_request ''/dashboard'') ''next'') =
      Inr (Some ''/dashboard'')"
    using next_url_result [of "next_request ''/dashboard''" "''next''" hosts_env hosts_heap]
    by (simp add: next_request_def callback_request_def s i)
  moreover have "fst (get_next_url hosts_env hosts_heap (next_request ''//evil.example/x'') ''next'') =
      Inr None"
    using next_url_result [of "next_request ''//evil.example/x''" "''next''" hosts_env hosts_heap]
    by (simp add: next_request_def callback_request_def s i)
  moreover have "get_next_url hosts_env hosts_heap (next_request '''') ''next'' =
      (Inr None, hosts_heap)"
    using next_url_result [of "next_request ''''" "''next''" hosts_env hosts_heap]
    by (simp add: next_request_def)
  moreover have "get_next_url hosts_env hosts_heap callback_request ''next'' =
      (Inr None, hosts_heap)"
    using next_url_result [of callback_request "''next''" hosts_env hosts_heap]
    by (simp add: callback_request_def)
  moreover have "fst (get_next_url hosts_env hosts_heap bad_host_request ''next'') =
      Inl DisallowedHost"
    using next_url_result [of bad_host_request "''next''" hosts_env hosts_heap]
    by (simp add: bad_host_request_def next_request_def)
  moreover have "take 1 (snd (get_next_url hosts_env hosts_heap (next_request ''/dashboard'')
      ''next'')) = hosts_heap"
    using next_url_result [of "next_request ''/dashboard''" "''next''" hosts_env hosts_heap]
    by (simp add: s)
  ultimately show ?thesis by (intro conjI)
qed


section \<open>The logout view\<close>

text \<open>A POST is handled by \<^verbatim>\<open>post\<close>.\<close>

lemma logout_view_post: "verb r = HttpPost \<Longrightarrow> OIDCLogoutView e r = post e r"
  by (simp add: OIDCLogoutView_def dispatch_def)

text \<open>
  Without an authenticated user \<^verbatim>\<open>post\<close> answers with the redirect to the
  configured logout URL and changes nothing.
\<close>

lemma post_anonymous:
  "\<not> is_authenticated (user r) \<Longrightarrow> post e r = (Inr (HttpResponseRedirect (redirect_url e)), r, [])"
  by (simp add: post_def Let_def)

text \<open>
  With an authenticated user and no method configured for the logout URL of the OP,
  \<^verbatim>\<open>post\<close> logs the user out and answers with the same redirect.
\<close>

lemma post_authenticated_default:
  "is_authenticated (user r) \<Longrightarrow> OIDC_OP_LOGOUT_URL_METHOD (settings e) = None \<Longrightarrow>
     post e r = (Inr (HttpResponseRedirect (redirect_url e)), auth_logout e r, [AuthLogout])"
  by (simp add: post_def Let_def get_settings_def import_from_settings_def)

text \<open>
  C9 at the verb GET: the view lists \<^verbatim>\<open>get\<close> in \<^verbatim>\<open>http_method_names\<close>
  and defines no method \<^verbatim>\<open>get\<close>, so the framework hands a GET to
  \<^verbatim>\<open>http_method_not_allowed\<close>. The answer is 405 with the allowed verb POST: no
  redirect, no logout.
\<close>

theorem logout_view_get_not_allowed:
  "verb r = HttpGet \<Longrightarrow> OIDCLogoutView e r = (Inr (HttpResponseNotAllowed [HttpPost]), r, [])"
  by (simp add: OIDCLogoutView_def dispatch_def has_key_def)

theorem logout_view_get_not_allowed_witness:
  "verb (callback_request\<lparr>user := User alice\<rparr>) = HttpGet \<and>
   OIDCLogoutView sample_env (callback_request\<lparr>user := User alice\<rparr>) =
     (Inr (HttpResponseNotAllowed [HttpPost]), callback_request\<lparr>user := User alice\<rparr>, [])"
  using logout_view_get_not_allowed [of "callback_request\<lparr>user := User alice\<rparr>" sample_env]
  by (simp add: callback_request_def)

end
